theory Spec2Isabelle
  imports Main "HOL-Library.Word"
begin

section \<open>The settings panel of multi-model-chat (src/components/SettingsPage.tsx)\<close>

text \<open>
  The component is a React function component: its state is a handful of
  \<open>useState\<close> cells, and every handler is a callback that reads the cells of the
  current render, calls the settings service and writes cells. The model keeps
  that shape: a record of the cells, the service as a record of operations over
  its own state, and each handler as a function from world to world. The service
  (services/settings) and the types (types) are imported by the component and
  are not part of it; the service is a parameter of every handler.
\<close>

subsection \<open>JavaScript strings\<close>

text \<open>
  A JavaScript string is a sequence of 16-bit code units. \<open>js\<close> turns an ASCII
  literal into that form.
\<close>

type_synonym jschar = "16 word"
type_synonym jsstring = "jschar list"

definition js :: "string \<Rightarrow> jsstring" where
  "js s = map of_char s"

definition comma :: jschar where
  "comma = 0x2C"

text \<open>
  The code units that \<open>String.prototype.trim\<close> strips and \<open>parseInt\<close> skips:
  WhiteSpace (TAB, VT, FF, ZWNBSP and the Unicode space separators) and
  LineTerminator (LF, CR, LS, PS).
\<close>

definition isWhiteSpace :: "jschar \<Rightarrow> bool" where
  "isWhiteSpace c \<longleftrightarrow>
     c = 0x9 \<or> c = 0xA \<or> c = 0xB \<or> c = 0xC \<or> c = 0xD \<or> c = 0x20 \<or> c = 0xA0 \<or>
     c = 0x1680 \<or> (0x2000 \<le> c \<and> c \<le> 0x200A) \<or> c = 0x2028 \<or> c = 0x2029 \<or>
     c = 0x202F \<or> c = 0x205F \<or> c = 0x3000 \<or> c = 0xFEFF"

text \<open>\<open>s.split(sep)\<close> for a separator of one code unit: never an empty array.\<close>

fun split_str :: "jschar \<Rightarrow> jsstring \<Rightarrow> jsstring list" where
  "split_str sep [] = [[]]"
| "split_str sep (c # cs) =
     (if c = sep then [] # split_str sep cs
      else (case split_str sep cs of
              [] \<Rightarrow> [[c]]
            | p # ps \<Rightarrow> (c # p) # ps))"

text \<open>\<open>s.trim()\<close>.\<close>

definition trim :: "jsstring \<Rightarrow> jsstring" where
  "trim s = rev (dropWhile isWhiteSpace (rev (dropWhile isWhiteSpace s)))"

text \<open>\<open>xs.join(sep)\<close> on an array of strings.\<close>

fun join :: "jsstring \<Rightarrow> jsstring list \<Rightarrow> jsstring" where
  "join sep [] = []"
| "join sep [x] = x"
| "join sep (x # y # ys) = x @ sep @ join sep (y # ys)"

text \<open>A string that \<open>trim\<close> has nothing to take from.\<close>

definition trimmed :: "jsstring \<Rightarrow> bool" where
  "trimmed s \<longleftrightarrow> s = [] \<or> (\<not> isWhiteSpace (hd s) \<and> \<not> isWhiteSpace (last s))"

subsection \<open>JavaScript numbers, as far as the panel computes with them\<close>

text \<open>
  Numbers are IEEE doubles. The model computes with the integers of magnitude at
  most \<open>2^53\<close>, where double arithmetic is exact, and gives \<open>Other\<close> (a double
  this model does not determine: a rounded, fractional or infinite value, or NaN
  arising from one) everywhere else. The sign of zero is not kept.
\<close>

datatype jsnum = NaN | Num int | Other

definition maxExact :: int where
  "maxExact = 2 ^ 53"

definition mkNum :: "int \<Rightarrow> jsnum" where
  "mkNum n = (if \<bar>n\<bar> \<le> maxExact then Num n else Other)"

fun js_times :: "jsnum \<Rightarrow> jsnum \<Rightarrow> jsnum" where
  "js_times NaN _ = NaN"
| "js_times _ NaN = NaN"
| "js_times (Num a) (Num b) = mkNum (a * b)"
| "js_times _ _ = Other"

fun js_divide :: "jsnum \<Rightarrow> jsnum \<Rightarrow> jsnum" where
  "js_divide NaN _ = NaN"
| "js_divide _ NaN = NaN"
| "js_divide (Num a) (Num b) =
     (if b = 0 then (if a = 0 then NaN else Other)
      else if b dvd a then Num (a div b) else Other)"
| "js_divide _ _ = Other"

text \<open>The value of a digit in the given radix (10 or 16), if it is one.\<close>

definition digitVal :: "nat \<Rightarrow> jschar \<Rightarrow> nat option" where
  "digitVal radix c =
     (let v = (if 0x30 \<le> c \<and> c \<le> 0x39 then Some (unat c - 0x30)
               else if 0x61 \<le> c \<and> c \<le> 0x7A then Some (unat c - 0x61 + 10)
               else if 0x41 \<le> c \<and> c \<le> 0x5A then Some (unat c - 0x41 + 10)
               else None)
      in case v of None \<Rightarrow> None | Some d \<Rightarrow> if d < radix then Some d else None)"

text \<open>The longest prefix of digits, read most significant first.\<close>

fun digitsPrefix :: "nat \<Rightarrow> jsstring \<Rightarrow> nat list" where
  "digitsPrefix radix [] = []"
| "digitsPrefix radix (c # cs) =
     (case digitVal radix c of None \<Rightarrow> [] | Some d \<Rightarrow> d # digitsPrefix radix cs)"

definition digitsValue :: "nat \<Rightarrow> nat list \<Rightarrow> nat" where
  "digitsValue radix ds = foldl (\<lambda>acc d. acc * radix + d) 0 ds"

text \<open>
  \<open>parseInt(s)\<close> with no radix argument: skip leading white space, take a sign,
  take a \<open>0x\<close>/\<open>0X\<close> prefix as radix 16, read the longest run of digits; NaN if
  there is none.
\<close>

definition parseInt :: "jsstring \<Rightarrow> jsnum" where
  "parseInt s =
     (let s1 = dropWhile isWhiteSpace s;
          neg = (s1 \<noteq> [] \<and> hd s1 = 0x2D);
          s2 = (if s1 \<noteq> [] \<and> (hd s1 = 0x2B \<or> hd s1 = 0x2D) then tl s1 else s1);
          hex = (length s2 \<ge> 2 \<and> hd s2 = 0x30 \<and> (hd (tl s2) = 0x78 \<or> hd (tl s2) = 0x58));
          radix = (if hex then 16 else 10);
          s3 = (if hex then tl (tl s2) else s2);
          ds = digitsPrefix radix s3
      in if ds = [] then NaN
         else mkNum ((if neg then - 1 else 1) * int (digitsValue radix ds)))"

text \<open>The decimal digits of an array length, as \<open>String(n)\<close> gives them.\<close>

function toString_nat :: "nat \<Rightarrow> jsstring" where
  "toString_nat n =
     (if n < 10 then [of_nat (48 + n)]
      else toString_nat (n div 10) @ [of_nat (48 + n mod 10)])"
  by pat_completeness auto
termination
  by (relation "measure (\<lambda>n. n)") auto

subsection \<open>Data model\<close>

text \<open>
  The fields of \<open>LocalModelConfig\<close> and \<open>AppSettings\<close> that the component
  reads. The records are extensible: whatever else the type declarations hold
  travels in the \<open>more\<close> part and is copied by the object spread.
\<close>

record LocalModelConfig =
  id' :: jsstring
  name :: jsstring
  modelType :: jsstring
  endpoint :: jsstring
  description :: jsstring
  isEnabled :: bool

datatype Theme = Light | Dark | Auto

record 'c AppSettings =
  maxTokens :: jsnum
  temperature :: jsnum
  localModelTimeout :: jsnum
  autoSave :: bool
  theme :: Theme
  openRouterApiKey :: jsstring
  localModels :: "'c LocalModelConfig_scheme list"

text \<open>\<open>Partial<AppSettings>\<close>: every field may be absent.\<close>

record AppSettingsPartial =
  p_maxTokens :: "jsnum option"
  p_temperature :: "jsnum option"
  p_localModelTimeout :: "jsnum option"
  p_autoSave :: "bool option"
  p_theme :: "Theme option"
  p_openRouterApiKey :: "jsstring option"

definition noUpdates :: AppSettingsPartial where
  "noUpdates = \<lparr>p_maxTokens = None, p_temperature = None, p_localModelTimeout = None,
     p_autoSave = None, p_theme = None, p_openRouterApiKey = None\<rparr>"

datatype SettingsTab = General | Api | LocalModels | Appearance

subsection \<open>The settings service, a collaborator\<close>

text \<open>
  The component calls the service and never looks inside it. A service is any
  record of operations over a state of its own. \<open>importSettings\<close> may throw:
  \<open>Inl\<close> carries the thrown value and the state the service was left in. The
  other operations return. \<open>addLocalModel\<close> takes an optional config because
  the component passes it \<open>modelsToSave[0]\<close>, which is \<open>undefined\<close> (\<open>None\<close>)
  when the array is empty.
\<close>

datatype jserror = SyntaxError | ValidationError

record ('c, 's) SettingsService =
  getSettings :: "'s \<Rightarrow> 'c AppSettings"
  updateSettings :: "AppSettingsPartial \<Rightarrow> 's \<Rightarrow> 'c AppSettings \<times> 's"
  addLocalModel :: "'c LocalModelConfig_scheme option \<Rightarrow> 's \<Rightarrow> 's"
  addLocalModels :: "'c LocalModelConfig_scheme list \<Rightarrow> 's \<Rightarrow> 's"
  updateLocalModel :: "jsstring \<Rightarrow> 'c LocalModelConfig_scheme \<Rightarrow> 's \<Rightarrow> 's"
  removeLocalModel :: "jsstring \<Rightarrow> 's \<Rightarrow> 's"
  importSettings :: "jsstring \<Rightarrow> 's \<Rightarrow> (jserror \<times> 's) + 's"
  resetSettings :: "'s \<Rightarrow> 's"

text \<open>The calls the component makes, in order, with their arguments.\<close>

datatype 'c call =
    GetSettings
  | UpdateSettings AppSettingsPartial
  | AddLocalModel "'c LocalModelConfig_scheme option"
  | AddLocalModels "'c LocalModelConfig_scheme list"
  | UpdateLocalModel jsstring "'c LocalModelConfig_scheme"
  | RemoveLocalModel jsstring
  | ImportSettings jsstring
  | ResetSettings

subsection \<open>Component state\<close>

record ('c, 's) world =
  settings :: "'c AppSettings"
  activeTab :: SettingsTab
  showLocalModelForm :: bool
  editingModel :: "'c LocalModelConfig_scheme option"
  importError :: jsstring
  showBulkConfirm :: bool
  modelsToCreate :: "'c LocalModelConfig_scheme list"
  successMessage :: jsstring
  service :: 's
  calls :: "'c call list"

text \<open>One call of each service operation: the state moves on and the call is logged.\<close>

definition call_getSettings ::
  "('c, 's) SettingsService \<Rightarrow> ('c, 's) world \<Rightarrow> 'c AppSettings \<times> ('c, 's) world" where
  "call_getSettings svc w =
     (getSettings svc (service w), w\<lparr>calls := calls w @ [GetSettings]\<rparr>)"

definition call_updateSettings ::
  "('c, 's) SettingsService \<Rightarrow> AppSettingsPartial \<Rightarrow> ('c, 's) world \<Rightarrow>
     'c AppSettings \<times> ('c, 's) world" where
  "call_updateSettings svc updates w =
     (let (r, s') = updateSettings svc updates (service w)
      in (r, w\<lparr>service := s', calls := calls w @ [UpdateSettings updates]\<rparr>))"

definition call_addLocalModel ::
  "('c, 's) SettingsService \<Rightarrow> 'c LocalModelConfig_scheme option \<Rightarrow> ('c, 's) world \<Rightarrow>
     ('c, 's) world" where
  "call_addLocalModel svc m w =
     w\<lparr>service := addLocalModel svc m (service w), calls := calls w @ [AddLocalModel m]\<rparr>"

definition call_addLocalModels ::
  "('c, 's) SettingsService \<Rightarrow> 'c LocalModelConfig_scheme list \<Rightarrow> ('c, 's) world \<Rightarrow>
     ('c, 's) world" where
  "call_addLocalModels svc ms w =
     w\<lparr>service := addLocalModels svc ms (service w), calls := calls w @ [AddLocalModels ms]\<rparr>"

definition call_updateLocalModel ::
  "('c, 's) SettingsService \<Rightarrow> jsstring \<Rightarrow> 'c LocalModelConfig_scheme \<Rightarrow> ('c, 's) world \<Rightarrow>
     ('c, 's) world" where
  "call_updateLocalModel svc i m w =
     w\<lparr>service := updateLocalModel svc i m (service w),
       calls := calls w @ [UpdateLocalModel i m]\<rparr>"

definition call_removeLocalModel ::
  "('c, 's) SettingsService \<Rightarrow> jsstring \<Rightarrow> ('c, 's) world \<Rightarrow> ('c, 's) world" where
  "call_removeLocalModel svc i w =
     w\<lparr>service := removeLocalModel svc i (service w), calls := calls w @ [RemoveLocalModel i]\<rparr>"

definition call_resetSettings ::
  "('c, 's) SettingsService \<Rightarrow> ('c, 's) world \<Rightarrow> ('c, 's) world" where
  "call_resetSettings svc w =
     w\<lparr>service := resetSettings svc (service w), calls := calls w @ [ResetSettings]\<rparr>"

definition call_importSettings ::
  "('c, 's) SettingsService \<Rightarrow> jsstring \<Rightarrow> ('c, 's) world \<Rightarrow>
     (jserror + unit) \<times> ('c, 's) world" where
  "call_importSettings svc content w =
     (case importSettings svc content (service w) of
        Inl (e, s') \<Rightarrow> (Inl e, w\<lparr>service := s', calls := calls w @ [ImportSettings content]\<rparr>)
      | Inr s' \<Rightarrow> (Inr (), w\<lparr>service := s', calls := calls w @ [ImportSettings content]\<rparr>))"

subsection \<open>The handlers\<close>

text \<open>\<open>xs[i]\<close>: \<open>undefined\<close> (\<open>None\<close>) outside the array.\<close>

definition index :: "'a list \<Rightarrow> nat \<Rightarrow> 'a option" where
  "index xs i = (if i < length xs then Some (xs ! i) else None)"

definition handleSaveSettings ::
  "('c, 's) SettingsService \<Rightarrow> AppSettingsPartial \<Rightarrow> ('c, 's) world \<Rightarrow> ('c, 's) world" where
  "handleSaveSettings svc updates w =
     (let (updated, w1) = call_updateSettings svc updates w
      in w1\<lparr>settings := updated\<rparr>)"

text \<open>
  \<open>model.name.split(',').map(name => name.trim()).filter(name => name.length > 0)\<close>
\<close>

definition splitNames :: "jsstring \<Rightarrow> jsstring list" where
  "splitNames s = filter (\<lambda>name. length name > 0) (map (\<lambda>name. trim name) (split_str comma s))"

text \<open>
  The identifiers come from \<open>Math.random().toString(36).substring(2, 15)\<close>, one
  draw for each name in order. The draws are an input of the model: \<open>rnd i\<close> is
  the string that the draw for the name at index \<open>i\<close> gave.
\<close>

definition parseCommaSeparatedModelNames ::
  "(nat \<Rightarrow> jsstring) \<Rightarrow> 'c LocalModelConfig_scheme \<Rightarrow> 'c LocalModelConfig_scheme list" where
  "parseCommaSeparatedModelNames rnd model =
     (let names = splitNames (name model)
      in if length names = 1 then [model]
         else map (\<lambda>(i, n). model\<lparr>id' := rnd i, name := n\<rparr>) (enumerate 0 names))"

definition handleSaveLocalModel ::
  "('c, 's) SettingsService \<Rightarrow> (nat \<Rightarrow> jsstring) \<Rightarrow> 'c LocalModelConfig_scheme \<Rightarrow>
     ('c, 's) world \<Rightarrow> ('c, 's) world" where
  "handleSaveLocalModel svc rnd model w =
     (if editingModel w \<noteq> None then
        (let w1 = call_updateLocalModel svc (id' model) model w;
             (s, w2) = call_getSettings svc w1
         in w2\<lparr>settings := s, showLocalModelForm := False, editingModel := None\<rparr>)
      else
        (let modelsToSave = parseCommaSeparatedModelNames rnd model
         in if length modelsToSave > 1 then
              w\<lparr>modelsToCreate := modelsToSave, showBulkConfirm := True\<rparr>
            else
              (let w1 = call_addLocalModel svc (index modelsToSave 0) w;
                   (s, w2) = call_getSettings svc w1
               in w2\<lparr>settings := s, showLocalModelForm := False, editingModel := None\<rparr>)))"

definition successText :: "'c LocalModelConfig_scheme list \<Rightarrow> jsstring" where
  "successText ms =
     js ''Successfully created '' @ toString_nat (length ms) @ js '' models: '' @
     join (js '', '') (map (\<lambda>m. name m) ms)"

text \<open>
  The timer that empties the success message five seconds later is a separate
  event, \<open>successMessageTimeout\<close>.
\<close>

definition handleConfirmBulkCreation ::
  "('c, 's) SettingsService \<Rightarrow> ('c, 's) world \<Rightarrow> ('c, 's) world" where
  "handleConfirmBulkCreation svc w =
     (let w1 = call_addLocalModels svc (modelsToCreate w) w;
          (s, w2) = call_getSettings svc w1
      in w2\<lparr>settings := s, showLocalModelForm := False, editingModel := None,
            showBulkConfirm := False, successMessage := successText (modelsToCreate w)\<rparr>)"

definition successMessageTimeout :: "('c, 's) world \<Rightarrow> ('c, 's) world" where
  "successMessageTimeout w = w\<lparr>successMessage := []\<rparr>"

definition handleCancelBulkCreation :: "('c, 's) world \<Rightarrow> ('c, 's) world" where
  "handleCancelBulkCreation w = w\<lparr>showBulkConfirm := False, modelsToCreate := []\<rparr>"

text \<open>\<open>confirmed\<close> is the answer of the \<open>confirm\<close> prompt.\<close>

definition handleDeleteLocalModel ::
  "('c, 's) SettingsService \<Rightarrow> bool \<Rightarrow> jsstring \<Rightarrow> ('c, 's) world \<Rightarrow> ('c, 's) world" where
  "handleDeleteLocalModel svc confirmed modelId w =
     (if confirmed then
        (let w1 = call_removeLocalModel svc modelId w;
             (s, w2) = call_getSettings svc w1
         in w2\<lparr>settings := s\<rparr>)
      else w)"

definition handleEditLocalModel ::
  "'c LocalModelConfig_scheme \<Rightarrow> ('c, 's) world \<Rightarrow> ('c, 's) world" where
  "handleEditLocalModel model w = w\<lparr>editingModel := Some model, showLocalModelForm := True\<rparr>"

text \<open>The Add Model button and the form's own cancel button.\<close>

definition addModelClick :: "('c, 's) world \<Rightarrow> ('c, 's) world" where
  "addModelClick w = w\<lparr>showLocalModelForm := True\<rparr>"

definition formCancel :: "('c, 's) world \<Rightarrow> ('c, 's) world" where
  "formCancel w = w\<lparr>showLocalModelForm := False, editingModel := None\<rparr>"

text \<open>
  \<open>handleImportSettings\<close>: \<open>file\<close> is the text of the chosen file, \<open>None\<close> when
  no file was chosen. The body is the reader's \<open>onload\<close> callback, run with the
  text once it has been read.
\<close>

definition handleImportSettings ::
  "('c, 's) SettingsService \<Rightarrow> jsstring option \<Rightarrow> ('c, 's) world \<Rightarrow> ('c, 's) world" where
  "handleImportSettings svc file w =
     (case file of
        None \<Rightarrow> w
      | Some content \<Rightarrow>
          (case call_importSettings svc content w of
             (Inr _, w1) \<Rightarrow>
               (let (s, w2) = call_getSettings svc w1
                in w2\<lparr>settings := s, importError := []\<rparr>)
           | (Inl error, w1) \<Rightarrow> w1\<lparr>importError := js ''Invalid settings file format''\<rparr>))"

definition handleResetSettings ::
  "('c, 's) SettingsService \<Rightarrow> bool \<Rightarrow> ('c, 's) world \<Rightarrow> ('c, 's) world" where
  "handleResetSettings svc confirmed w =
     (if confirmed then
        (let w1 = call_resetSettings svc w;
             (s, w2) = call_getSettings svc w1
         in w2\<lparr>settings := s\<rparr>)
      else w)"

text \<open>
  The timeout field: \<open>value={settings.localModelTimeout / 1000}\<close> and
  \<open>onChange\<close> with \<open>parseInt(e.target.value) * 1000\<close>.
\<close>

definition localModelTimeout_value :: "('c, 's) world \<Rightarrow> jsnum" where
  "localModelTimeout_value w = js_divide (localModelTimeout (settings w)) (Num 1000)"

definition localModelTimeout_onChange ::
  "('c, 's) SettingsService \<Rightarrow> jsstring \<Rightarrow> ('c, 's) world \<Rightarrow> ('c, 's) world" where
  "localModelTimeout_onChange svc v w =
     handleSaveSettings svc
       (noUpdates\<lparr>p_localModelTimeout := Some (js_times (parseInt v) (Num 1000))\<rparr>) w"

subsection \<open>A stand-in service and concrete inputs\<close>

text \<open>
  Modelled from the spec: the settings service (services/settings is imported by
  the component and is not under src/), after the interface the spec lists for
  it: the snapshot held in memory, \<open>updateSettings\<close> merging a patch and
  returning the new snapshot, the model operations acting on the list of local
  models, \<open>importSettings\<close> failing on text it does not accept (here every
  text but \<open>{}\<close>, which changes nothing). It stands in for the service where a
  handler is run on a concrete input; the general theorems are about every
  service.
\<close>

definition applyUpdates :: "AppSettingsPartial \<Rightarrow> 'c AppSettings \<Rightarrow> 'c AppSettings" where
  "applyUpdates p s =
     s\<lparr>maxTokens := (case p_maxTokens p of None \<Rightarrow> maxTokens s | Some v \<Rightarrow> v),
       temperature := (case p_temperature p of None \<Rightarrow> temperature s | Some v \<Rightarrow> v),
       localModelTimeout :=
         (case p_localModelTimeout p of None \<Rightarrow> localModelTimeout s | Some v \<Rightarrow> v),
       autoSave := (case p_autoSave p of None \<Rightarrow> autoSave s | Some v \<Rightarrow> v),
       theme := (case p_theme p of None \<Rightarrow> theme s | Some v \<Rightarrow> v),
       openRouterApiKey :=
         (case p_openRouterApiKey p of None \<Rightarrow> openRouterApiKey s | Some v \<Rightarrow> v)\<rparr>"

definition memoryService :: "'c AppSettings \<Rightarrow> ('c, 'c AppSettings) SettingsService" where
  "memoryService defaults =
     \<lparr>getSettings = (\<lambda>s. s),
      updateSettings = (\<lambda>p s. (applyUpdates p s, applyUpdates p s)),
      addLocalModel =
        (\<lambda>m s. case m of None \<Rightarrow> s | Some c \<Rightarrow> s\<lparr>localModels := localModels s @ [c]\<rparr>),
      addLocalModels = (\<lambda>ms s. s\<lparr>localModels := localModels s @ ms\<rparr>),
      updateLocalModel =
        (\<lambda>i m s. s\<lparr>localModels := map (\<lambda>c. if id' c = i then m else c) (localModels s)\<rparr>),
      removeLocalModel = (\<lambda>i s. s\<lparr>localModels := filter (\<lambda>c. id' c \<noteq> i) (localModels s)\<rparr>),
      importSettings = (\<lambda>content s. if content = js ''{}'' then Inr s else Inl (SyntaxError, s)),
      resetSettings = (\<lambda>s. defaults)\<rparr>"

text \<open>
  The component as it mounts: \<open>useState\<close> gives every cell its initial value,
  the snapshot from a first \<open>getSettings\<close>.
\<close>

definition mount :: "('c, 's) SettingsService \<Rightarrow> 's \<Rightarrow> ('c, 's) world" where
  "mount svc s =
     \<lparr>settings = getSettings svc s, activeTab = General, showLocalModelForm = False,
      editingModel = None, importError = [], showBulkConfirm = False, modelsToCreate = [],
      successMessage = [], service = s, calls = [GetSettings]\<rparr>"

text \<open>A config as the form submits it, with the given name field.\<close>

definition sampleModel :: "jsstring \<Rightarrow> LocalModelConfig" where
  "sampleModel n = \<lparr>id' = js ''m0'', name = n, modelType = js ''ollama'',
     endpoint = js ''http://localhost:11434'', description = [], isEnabled = True\<rparr>"

text \<open>
  Three draws that differ: \<open>Math.random()\<close> giving 0.25, 0.5 and 0.75, whose
  base-36 forms are \<open>0.9\<close>, \<open>0.i\<close> and \<open>0.r\<close>.
\<close>

definition sampleDraws :: "nat \<Rightarrow> jsstring" where
  "sampleDraws i = (if i = 0 then js ''9'' else if i = 1 then js ''i'' else js ''r'')"

definition sampleSettings :: "unit AppSettings" where
  "sampleSettings =
     \<lparr>maxTokens = Num 2048, temperature = Num 1, localModelTimeout = Num 45000,
      autoSave = True, theme = Light, openRouterApiKey = [], localModels = []\<rparr>"

definition sampleService :: "(unit, unit AppSettings) SettingsService" where
  "sampleService = memoryService sampleSettings"

definition sampleWorld :: "(unit, unit AppSettings) world" where
  "sampleWorld = mount sampleService sampleSettings"

section \<open>Properties\<close>

subsection \<open>Splitting and trimming\<close>

lemma split_str_nonempty: "split_str sep s \<noteq> []"
  by (induction s) (auto split: list.splits)

text \<open>No piece holds the separator, and every piece is made of code units of the input.\<close>

lemma split_str_pieces: "p \<in> set (split_str sep s) \<Longrightarrow> set p \<subseteq> set s - {sep}"
proof (induction s arbitrary: p)
  case Nil
  then show ?case by simp
next
  case (Cons c cs)
  show ?case
  proof (cases "c = sep")
    case True
    with Cons show ?thesis by auto
  next
    case False
    obtain q qs where q: "split_str sep cs = q # qs"
      using split_str_nonempty [of sep cs] by (cases "split_str sep cs") auto
    with False Cons.prems have "p = c # q \<or> p \<in> set qs" by auto
    then show ?thesis
    proof
      assume "p = c # q"
      moreover have "set q \<subseteq> set cs - {sep}" using Cons.IH [of q] q by simp
      ultimately show ?thesis using False by auto
    next
      assume "p \<in> set qs"
      then have "set p \<subseteq> set cs - {sep}" using Cons.IH [of p] q by simp
      then show ?thesis by auto
    qed
  qed
qed

lemma split_str_no_sep: "sep \<notin> set s \<Longrightarrow> split_str sep s = [s]"
  by (induction s) auto

lemma trim_blank: "\<forall>c\<in>set s. isWhiteSpace c \<Longrightarrow> trim s = []"
proof -
  assume "\<forall>c\<in>set s. isWhiteSpace c"
  then have "dropWhile isWhiteSpace s = []" by simp
  then show ?thesis by (simp add: trim_def del: dropWhile_eq_Nil_conv)
qed

lemma trim_not_blank: "\<exists>c\<in>set s. \<not> isWhiteSpace c \<Longrightarrow> trim s \<noteq> []"
proof -
  assume "\<exists>c\<in>set s. \<not> isWhiteSpace c"
  then have a: "dropWhile isWhiteSpace s \<noteq> []" by simp
  then have "\<not> isWhiteSpace (hd (dropWhile isWhiteSpace s))" by (rule hd_dropWhile)
  moreover have "hd (dropWhile isWhiteSpace s) \<in> set (rev (dropWhile isWhiteSpace s))"
    using a by simp
  ultimately have "dropWhile isWhiteSpace (rev (dropWhile isWhiteSpace s)) \<noteq> []"
    unfolding dropWhile_eq_Nil_conv by blast
  then show ?thesis by (simp add: trim_def del: dropWhile_eq_Nil_conv)
qed

lemma trimmed_trim: "trimmed (trim s)"
proof (cases "trim s = []")
  case True
  then show ?thesis by (simp add: trimmed_def)
next
  case False
  let ?a = "dropWhile isWhiteSpace s"
  let ?b = "dropWhile isWhiteSpace (rev ?a)"
  have b: "?b \<noteq> []" using False by (simp add: trim_def del: dropWhile_eq_Nil_conv)
  then have hb: "\<not> isWhiteSpace (hd ?b)" by (rule hd_dropWhile)
  have "last (trim s) = hd ?b"
    using b by (simp add: trim_def last_rev del: dropWhile_eq_Nil_conv)
  with hb have l: "\<not> isWhiteSpace (last (trim s))" by simp
  have a: "?a \<noteq> []" using b by (cases ?a) auto
  then have ha: "\<not> isWhiteSpace (hd ?a)" by (rule hd_dropWhile)
  obtain x xs where ax: "?a = x # xs" using a by (cases ?a) auto
  have x: "\<not> isWhiteSpace x" using ha ax by simp
  have "?b = dropWhile isWhiteSpace (rev xs @ [x])" using ax by simp
  also have "\<dots> = (if \<forall>y\<in>set (rev xs). isWhiteSpace y then [x]
                     else dropWhile isWhiteSpace (rev xs) @ [x])"
    using x by (simp add: dropWhile_append)
  finally have "last ?b = x" by (simp split: if_splits)
  then have "hd (trim s) = x"
    using b by (simp add: trim_def hd_rev del: dropWhile_eq_Nil_conv)
  with x l False show ?thesis by (simp add: trimmed_def)
qed

lemma splitNames_blank:
  assumes "\<forall>c\<in>set s. c = comma \<or> isWhiteSpace c"
  shows "splitNames s = []"
proof -
  have "trim p = []" if "p \<in> set (split_str comma s)" for p
  proof -
    have "set p \<subseteq> set s - {comma}" using that by (rule split_str_pieces)
    with assms have "\<forall>c\<in>set p. isWhiteSpace c" by auto
    then show ?thesis by (rule trim_blank)
  qed
  then show ?thesis by (auto simp: splitNames_def filter_empty_conv)
qed

lemma splitNames_single:
  assumes "comma \<notin> set s" and "\<exists>c\<in>set s. \<not> isWhiteSpace c"
  shows "splitNames s = [trim s]"
  using assms trim_not_blank [of s] by (simp add: splitNames_def split_str_no_sep)

lemma splitNames_names: "n \<in> set (splitNames s) \<Longrightarrow> n \<noteq> [] \<and> trimmed n"
  by (auto simp: splitNames_def trimmed_trim)

text \<open>The bulk branch, by position.\<close>

lemma parse_many:
  "length (splitNames (name m)) \<noteq> 1 \<Longrightarrow>
   parseCommaSeparatedModelNames rnd m =
     map (\<lambda>i. m\<lparr>id' := rnd i, name := splitNames (name m) ! i\<rparr>)
       [0..<length (splitNames (name m))]"
  by (auto simp: parseCommaSeparatedModelNames_def Let_def enumerate_eq_zip intro!: nth_equalityI)

lemma splitNames_A_B: "splitNames (js ''A, B'') = [js ''A'', js ''B'']"
  by (simp add: splitNames_def js_def comma_def trim_def isWhiteSpace_def)

lemma splitNames_A_A: "splitNames (js ''A,A'') = [js ''A'', js ''A'']"
  by (simp add: splitNames_def js_def comma_def trim_def isWhiteSpace_def)

lemma splitNames_A_B_C: "splitNames (js ''A, B , C'') = [js ''A'', js ''B'', js ''C'']"
  by (simp add: splitNames_def js_def comma_def trim_def isWhiteSpace_def)

lemma splitNames_commas: "splitNames (js '' , , '') = []"
  by (simp add: splitNames_def js_def comma_def trim_def isWhiteSpace_def)

lemma sampleDraws_values:
  "sampleDraws 0 = js ''9''" "sampleDraws (Suc 0) = js ''i''" "sampleDraws 2 = js ''r''"
  by (simp_all add: sampleDraws_def)

lemmas call_defs = call_getSettings_def call_updateSettings_def call_addLocalModel_def
  call_addLocalModels_def call_updateLocalModel_def call_removeLocalModel_def
  call_resetSettings_def call_importSettings_def

subsection \<open>The Bulk Model Parser\<close>

text \<open>
  Claim C1, as amended. The parser returns the submitted config alone and
  unchanged (its own identifier, its name as submitted) when exactly one
  non-empty trimmed piece remains. Otherwise it returns one copy for each
  non-empty trimmed piece, in order and with duplicates kept: the copy at
  position \<open>i\<close> has the \<open>i\<close>-th piece as its name, the \<open>i\<close>-th draw as its
  identifier and every other field of the submitted config; each of these names
  is non-empty and trimmed; and the identifiers are pairwise distinct and differ
  from the original one whenever the draws do.
\<close>

theorem parse_names_result:
  "(length (splitNames (name m)) = 1 \<longrightarrow> parseCommaSeparatedModelNames rnd m = [m]) \<and>
   (length (splitNames (name m)) \<noteq> 1 \<longrightarrow>
      parseCommaSeparatedModelNames rnd m =
        map (\<lambda>i. m\<lparr>id' := rnd i, name := splitNames (name m) ! i\<rparr>)
          [0..<length (splitNames (name m))] \<and>
      (\<forall>c\<in>set (parseCommaSeparatedModelNames rnd m). name c \<noteq> [] \<and> trimmed (name c)) \<and>
      (distinct (map rnd [0..<length (splitNames (name m))]) \<and>
       id' m \<notin> set (map rnd [0..<length (splitNames (name m))]) \<longrightarrow>
         distinct (map id' (parseCommaSeparatedModelNames rnd m)) \<and>
         id' m \<notin> set (map id' (parseCommaSeparatedModelNames rnd m))))"
proof (intro conjI impI)
  assume "length (splitNames (name m)) = 1"
  then show "parseCommaSeparatedModelNames rnd m = [m]"
    by (simp add: parseCommaSeparatedModelNames_def)
next
  assume n: "length (splitNames (name m)) \<noteq> 1"
  then show p: "parseCommaSeparatedModelNames rnd m =
        map (\<lambda>i. m\<lparr>id' := rnd i, name := splitNames (name m) ! i\<rparr>)
          [0..<length (splitNames (name m))]"
    by (rule parse_many)
  show "\<forall>c\<in>set (parseCommaSeparatedModelNames rnd m). name c \<noteq> [] \<and> trimmed (name c)"
  proof
    fix c assume "c \<in> set (parseCommaSeparatedModelNames rnd m)"
    then obtain i where "i < length (splitNames (name m))" "name c = splitNames (name m) ! i"
      unfolding p by auto
    then have "name c \<in> set (splitNames (name m))" by simp
    then show "name c \<noteq> [] \<and> trimmed (name c)" by (rule splitNames_names)
  qed
  have ids: "map id' (parseCommaSeparatedModelNames rnd m) =
      map rnd [0..<length (splitNames (name m))]"
    unfolding p by simp
  {
    assume "distinct (map rnd [0..<length (splitNames (name m))]) \<and>
       id' m \<notin> set (map rnd [0..<length (splitNames (name m))])"
    then show "distinct (map id' (parseCommaSeparatedModelNames rnd m))"
      and "id' m \<notin> set (map id' (parseCommaSeparatedModelNames rnd m))"
      unfolding ids by simp_all
  }
qed

text \<open>
  Both branches of the theorem: the name \<open> llama3 \<close>, which comes back as it
  was submitted, and the name \<open>A, B\<close> with the draws \<open>9\<close> and \<open>i\<close>.
\<close>

theorem parse_names_result_witness:
  "length (splitNames (name (sampleModel (js '' llama3 '')))) = 1 \<and>
   parseCommaSeparatedModelNames sampleDraws (sampleModel (js '' llama3 '')) =
     [sampleModel (js '' llama3 '')] \<and>
   length (splitNames (name (sampleModel (js ''A, B'')))) \<noteq> 1 \<and>
   parseCommaSeparatedModelNames sampleDraws (sampleModel (js ''A, B'')) =
     [(sampleModel (js ''A, B''))\<lparr>id' := js ''9'', name := js ''A''\<rparr>,
      (sampleModel (js ''A, B''))\<lparr>id' := js ''i'', name := js ''B''\<rparr>] \<and>
   list_all (\<lambda>c. name c \<noteq> [] \<and> trimmed (name c))
     (parseCommaSeparatedModelNames sampleDraws (sampleModel (js ''A, B''))) \<and>
   distinct (map sampleDraws [0..<2]) \<and>
   id' (sampleModel (js ''A, B'')) \<notin> set (map sampleDraws [0..<2]) \<and>
   distinct (map id' (parseCommaSeparatedModelNames sampleDraws (sampleModel (js ''A, B'')))) \<and>
   id' (sampleModel (js ''A, B'')) \<notin>
     set (map id' (parseCommaSeparatedModelNames sampleDraws (sampleModel (js ''A, B''))))"
proof -
  have ns: "splitNames (name (sampleModel (js ''A, B''))) = [js ''A'', js ''B'']"
    by (simp add: sampleModel_def splitNames_A_B)
  have u: "[0..<2] = [0, Suc 0]" by (simp add: upt_rec)
  have i: "id' (sampleModel (js ''A, B'')) = js ''m0''" by (simp add: sampleModel_def)
  have neq: "js ''9'' \<noteq> js ''i''" "js ''m0'' \<noteq> js ''9''" "js ''m0'' \<noteq> js ''i''"
    by (simp_all add: js_def)
  have one: "length (splitNames (name (sampleModel (js '' llama3 '')))) = 1"
    by (simp add: sampleModel_def splitNames_def js_def comma_def trim_def isWhiteSpace_def)
  have single: "parseCommaSeparatedModelNames sampleDraws (sampleModel (js '' llama3 '')) =
      [sampleModel (js '' llama3 '')]"
    using parse_names_result [of "sampleModel (js '' llama3 '')" sampleDraws] one by blast
  have many: "parseCommaSeparatedModelNames sampleDraws (sampleModel (js ''A, B'')) =
     [(sampleModel (js ''A, B''))\<lparr>id' := js ''9'', name := js ''A''\<rparr>,
      (sampleModel (js ''A, B''))\<lparr>id' := js ''i'', name := js ''B''\<rparr>] \<and>
   list_all (\<lambda>c. name c \<noteq> [] \<and> trimmed (name c))
     (parseCommaSeparatedModelNames sampleDraws (sampleModel (js ''A, B''))) \<and>
   distinct (map sampleDraws [0..<2]) \<and>
   id' (sampleModel (js ''A, B'')) \<notin> set (map sampleDraws [0..<2]) \<and>
   distinct (map id' (parseCommaSeparatedModelNames sampleDraws (sampleModel (js ''A, B'')))) \<and>
   id' (sampleModel (js ''A, B'')) \<notin>
     set (map id' (parseCommaSeparatedModelNames sampleDraws (sampleModel (js ''A, B''))))"
    using parse_names_result [of "sampleModel (js ''A, B'')" sampleDraws] neq
    by (simp add: ns u sampleDraws_values i list_all_iff)
  have two: "length (splitNames (name (sampleModel (js ''A, B'')))) \<noteq> 1"
    by (simp add: ns)
  show ?thesis using one single two many by blast
qed

text \<open>
  The claim as written fails: the name \<open>A,A\<close> gives two configs that are both
  named \<open>A\<close>. Nothing in the parser compares the pieces with one another.
\<close>

theorem parse_keeps_duplicate_names:
  "\<not> distinct (map name (parseCommaSeparatedModelNames sampleDraws (sampleModel (js ''A,A''))))"
  by (simp add: parseCommaSeparatedModelNames_def splitNames_A_A sampleModel_def enumerate_eq_zip)

text \<open>
  Claim C4, as amended. For every submitted config whose name holds no comma and
  at least one code unit that is not white space, the parser returns exactly the
  submitted config, identifier and all.
\<close>

theorem parse_single_name:
  "comma \<notin> set (name m) \<Longrightarrow> \<exists>c\<in>set (name m). \<not> isWhiteSpace c \<Longrightarrow>
   parseCommaSeparatedModelNames rnd m = [m]"
  by (simp add: parseCommaSeparatedModelNames_def splitNames_single)

theorem parse_single_name_witness:
  "comma \<notin> set (name (sampleModel (js '' llama3 ''))) \<and>
   (\<exists>c\<in>set (name (sampleModel (js '' llama3 ''))). \<not> isWhiteSpace c) \<and>
   parseCommaSeparatedModelNames sampleDraws (sampleModel (js '' llama3 '')) =
     [sampleModel (js '' llama3 '')]"
proof -
  have h1: "comma \<notin> set (name (sampleModel (js '' llama3 '')))"
    by (simp add: sampleModel_def js_def comma_def)
  have h2: "\<exists>c\<in>set (name (sampleModel (js '' llama3 ''))). \<not> isWhiteSpace c"
    by (simp add: sampleModel_def js_def isWhiteSpace_def)
  show ?thesis using h1 h2 parse_single_name [OF h1 h2, of sampleDraws] by simp
qed

text \<open>
  The claim as written fails at the blank name: it holds no comma, and the parser
  returns the empty list, not the submitted config.
\<close>

theorem parse_blank_name_no_comma:
  "comma \<notin> set (name (sampleModel (js ''''))) \<and>
   parseCommaSeparatedModelNames sampleDraws (sampleModel (js '''')) = [] \<and>
   parseCommaSeparatedModelNames sampleDraws (sampleModel (js '''')) \<noteq> [sampleModel (js '''')]"
  by (simp add: parseCommaSeparatedModelNames_def splitNames_def sampleModel_def js_def trim_def)

text \<open>
  The name \<open>A, B , C\<close>: three configs named \<open>A\<close>, \<open>B\<close> and \<open>C\<close>, each
  with every field of the submitted config but name and identifier, and with the
  three draws as identifiers, in order.
\<close>

lemma parse_A_B_C_names:
  "name m = js ''A, B , C'' \<Longrightarrow>
   parseCommaSeparatedModelNames rnd m =
     [m\<lparr>id' := rnd 0, name := js ''A''\<rparr>,
      m\<lparr>id' := rnd 1, name := js ''B''\<rparr>,
      m\<lparr>id' := rnd 2, name := js ''C''\<rparr>]"
proof -
  assume n: "name m = js ''A, B , C''"
  have u: "[0..<3] = [0, 1, 2]" by (simp add: upt_rec)
  have "length (splitNames (name m)) \<noteq> 1" by (simp add: n splitNames_A_B_C)
  then have "parseCommaSeparatedModelNames rnd m =
     map (\<lambda>i. m\<lparr>id' := rnd i, name := splitNames (name m) ! i\<rparr>)
       [0..<length (splitNames (name m))]"
    by (rule parse_many)
  then show ?thesis
    by (simp add: n splitNames_A_B_C u numeral_2_eq_2)
qed

text \<open>With the draws 0.25, 0.5 and 0.75 the identifiers are \<open>9\<close>, \<open>i\<close> and \<open>r\<close>.\<close>

lemma parse_A_B_C_sample:
  "map name (parseCommaSeparatedModelNames sampleDraws (sampleModel (js ''A, B , C''))) =
     [js ''A'', js ''B'', js ''C''] \<and>
   map id' (parseCommaSeparatedModelNames sampleDraws (sampleModel (js ''A, B , C''))) =
     [js ''9'', js ''i'', js ''r'']"
proof -
  have h: "name (sampleModel (js ''A, B , C'')) = js ''A, B , C''"
    by (simp add: sampleModel_def)
  show ?thesis
    using parse_A_B_C_names [OF h, of sampleDraws] by (simp add: sampleDraws_values)
qed

text \<open>
  One draw that equals the identifier submitted is enough for a copy to carry
  the original identifier: the submitted identifier \<open>9\<close> and the same draws.
\<close>

lemma parse_A_B_C_draw_equals_original:
  "map id' (parseCommaSeparatedModelNames sampleDraws
      ((sampleModel (js ''A, B , C''))\<lparr>id' := js ''9''\<rparr>)) = [js ''9'', js ''i'', js ''r''] \<and>
   id' ((sampleModel (js ''A, B , C''))\<lparr>id' := js ''9''\<rparr>) \<in>
     set (map id' (parseCommaSeparatedModelNames sampleDraws
      ((sampleModel (js ''A, B , C''))\<lparr>id' := js ''9''\<rparr>)))"
proof -
  have h: "name ((sampleModel (js ''A, B , C''))\<lparr>id' := js ''9''\<rparr>) = js ''A, B , C''"
    by (simp add: sampleModel_def)
  show ?thesis
    using parse_A_B_C_names [OF h, of sampleDraws] by (simp add: sampleDraws_values)
qed

text \<open>
  Claim C5. For a submitted config named \<open>A, B , C\<close> the three configs returned
  should carry identifiers that are fresh: distinct from one another and from
  the original one. The names and the shared fields are as claimed, and the
  source line that draws an identifier is commented \<open>New unique ID for each\<close>,
  but the parser compares the draws with nothing. Let the submitted config have
  the identifier \<open>i\<close> and let \<open>Math.random()\<close> give 0.5 each time, so that
  \<open>toString(36)\<close> is \<open>0.i\<close> and every draw is \<open>i\<close>: the three identifiers
  are then equal, and equal to the original one.
\<close>

theorem parse_A_B_C_equal_draws:
  "map id' (parseCommaSeparatedModelNames (\<lambda>i. js ''i'')
      ((sampleModel (js ''A, B , C''))\<lparr>id' := js ''i''\<rparr>)) = [js ''i'', js ''i'', js ''i''] \<and>
   \<not> distinct (map id' (parseCommaSeparatedModelNames (\<lambda>i. js ''i'')
      ((sampleModel (js ''A, B , C''))\<lparr>id' := js ''i''\<rparr>))) \<and>
   id' ((sampleModel (js ''A, B , C''))\<lparr>id' := js ''i''\<rparr>) \<in>
     set (map id' (parseCommaSeparatedModelNames (\<lambda>i. js ''i'')
      ((sampleModel (js ''A, B , C''))\<lparr>id' := js ''i''\<rparr>)))"
  by (simp add: parseCommaSeparatedModelNames_def splitNames_A_B_C sampleModel_def
      enumerate_eq_zip)

text \<open>
  Claim C10. For every submitted config whose name consists only of commas and
  white space, the parser returns the empty list.
\<close>

theorem parse_only_commas_and_whitespace:
  "\<forall>c\<in>set (name m). c = comma \<or> isWhiteSpace c \<Longrightarrow>
   parseCommaSeparatedModelNames rnd m = []"
  by (simp add: parseCommaSeparatedModelNames_def splitNames_blank)

theorem parse_only_commas_and_whitespace_witness:
  "list_all (\<lambda>c. c = comma \<or> isWhiteSpace c) (name (sampleModel (js '' , , ''))) \<and>
   parseCommaSeparatedModelNames sampleDraws (sampleModel (js '' , , '')) = []"
proof -
  have h: "\<forall>c\<in>set (name (sampleModel (js '' , , ''))). c = comma \<or> isWhiteSpace c"
    by (simp add: sampleModel_def js_def comma_def isWhiteSpace_def)
  show ?thesis
    using h parse_only_commas_and_whitespace [OF h, of sampleDraws] by (simp add: list_all_iff)
qed

subsection \<open>Save orchestration\<close>

text \<open>
  Claim C7. For every save while a model is being edited, the handler calls
  \<open>updateLocalModel\<close> with the identifier of the submitted model and the
  submitted model, then \<open>getSettings\<close>; it takes the snapshot, closes the form
  and leaves editing mode. Nothing else changes: the staged list and the
  confirmation flag stay as they were and no add operation is called, whatever
  the name field holds and whatever the random draws would be.
\<close>

theorem edit_save_in_place:
  "editingModel w \<noteq> None \<Longrightarrow>
   handleSaveLocalModel svc rnd model w =
     w\<lparr>settings := getSettings svc (updateLocalModel svc (id' model) model (service w)),
       showLocalModelForm := False,
       editingModel := None,
       service := updateLocalModel svc (id' model) model (service w),
       calls := calls w @ [UpdateLocalModel (id' model) model, GetSettings]\<rparr>"
  by (simp add: handleSaveLocalModel_def call_defs)

text \<open>Editing, with the name \<open>A, B\<close> submitted: one update, nothing staged.\<close>

theorem edit_save_in_place_witness:
  "editingModel (handleEditLocalModel (sampleModel (js ''A'')) sampleWorld) \<noteq> None \<and>
   calls (handleSaveLocalModel sampleService sampleDraws (sampleModel (js ''A, B''))
            (handleEditLocalModel (sampleModel (js ''A'')) sampleWorld)) =
     [GetSettings, UpdateLocalModel (js ''m0'') (sampleModel (js ''A, B'')), GetSettings] \<and>
   modelsToCreate (handleSaveLocalModel sampleService sampleDraws (sampleModel (js ''A, B''))
            (handleEditLocalModel (sampleModel (js ''A'')) sampleWorld)) = [] \<and>
   \<not> showBulkConfirm (handleSaveLocalModel sampleService sampleDraws (sampleModel (js ''A, B''))
            (handleEditLocalModel (sampleModel (js ''A'')) sampleWorld))"
proof -
  have h: "editingModel (handleEditLocalModel (sampleModel (js ''A'')) sampleWorld) \<noteq> None"
    by (simp add: handleEditLocalModel_def)
  show ?thesis
    using h edit_save_in_place [OF h, of sampleService sampleDraws "sampleModel (js ''A, B'')"]
    by (simp add: handleEditLocalModel_def sampleWorld_def mount_def sampleModel_def)
qed

text \<open>
  Claim C3. On the create path a name that parses to no entry should create
  nothing. The handler instead takes the branch for a single model, reads
  \<open>modelsToSave[0]\<close> of the empty array and calls \<open>addLocalModel\<close> with
  \<open>undefined\<close>: run on the name \<open> , , \<close> from the open form, the calls after
  the mount are \<open>addLocalModel(undefined)\<close> and \<open>getSettings\<close>.
\<close>

theorem save_blank_name_adds_undefined:
  "calls (handleSaveLocalModel sampleService sampleDraws (sampleModel (js '' , , ''))
           (addModelClick sampleWorld)) =
   [GetSettings, AddLocalModel None, GetSettings]"
  by (simp add: call_defs handleSaveLocalModel_def addModelClick_def index_def
      sampleWorld_def mount_def parseCommaSeparatedModelNames_def sampleModel_def
      splitNames_commas)

text \<open>The same on every world and service: an empty parse goes to \<open>addLocalModel\<close>.\<close>

lemma save_empty_parse_calls:
  "editingModel w = None \<Longrightarrow> parseCommaSeparatedModelNames rnd model = [] \<Longrightarrow>
   calls (handleSaveLocalModel svc rnd model w) = calls w @ [AddLocalModel None, GetSettings]"
  by (simp add: handleSaveLocalModel_def call_defs index_def)

text \<open>The two other outcomes of the create path: one model is added, several are staged.\<close>

lemma save_single_calls:
  "editingModel w = None \<Longrightarrow> parseCommaSeparatedModelNames rnd model = [m] \<Longrightarrow>
   calls (handleSaveLocalModel svc rnd model w) = calls w @ [AddLocalModel (Some m), GetSettings]
   \<and> \<not> showLocalModelForm (handleSaveLocalModel svc rnd model w)"
  by (simp add: handleSaveLocalModel_def call_defs index_def)

lemma save_bulk_stages:
  "editingModel w = None \<Longrightarrow> 1 < length (parseCommaSeparatedModelNames rnd model) \<Longrightarrow>
   handleSaveLocalModel svc rnd model w =
     w\<lparr>modelsToCreate := parseCommaSeparatedModelNames rnd model, showBulkConfirm := True\<rparr>"
  by (simp add: handleSaveLocalModel_def)

subsection \<open>The bulk confirmation gate\<close>

text \<open>What confirming does, on every world and service.\<close>

lemma confirm_effects:
  "handleConfirmBulkCreation svc w =
     w\<lparr>settings := getSettings svc (addLocalModels svc (modelsToCreate w) (service w)),
       showLocalModelForm := False, editingModel := None, showBulkConfirm := False,
       successMessage := successText (modelsToCreate w),
       service := addLocalModels svc (modelsToCreate w) (service w),
       calls := calls w @ [AddLocalModels (modelsToCreate w), GetSettings]\<rparr>"
  by (simp add: handleConfirmBulkCreation_def call_defs)

lemma successText_two:
  "successText [m\<lparr>name := js ''A''\<rparr>, m\<lparr>name := js ''B''\<rparr>] =
   js ''Successfully created 2 models: A, B''"
  by (simp add: successText_def js_def)

text \<open>
  Claim C2. Confirming hands the staged configs to \<open>addLocalModels\<close>, closes the
  form and sets the success message, but it does not clear the staged list:
  after staging \<open>A, B\<close> from the open form and confirming, \<open>modelsToCreate\<close>
  still holds the two configs. The cancel handler is the one that empties it.
\<close>

theorem confirm_keeps_staged_list:
  "modelsToCreate
     (handleConfirmBulkCreation sampleService
        (handleSaveLocalModel sampleService sampleDraws (sampleModel (js ''A, B''))
           (addModelClick sampleWorld))) =
   [(sampleModel (js ''A, B''))\<lparr>id' := js ''9'', name := js ''A''\<rparr>,
    (sampleModel (js ''A, B''))\<lparr>id' := js ''i'', name := js ''B''\<rparr>]"
  by (simp add: handleConfirmBulkCreation_def call_defs handleSaveLocalModel_def
      addModelClick_def sampleWorld_def mount_def parseCommaSeparatedModelNames_def
      sampleModel_def splitNames_A_B sampleDraws_values enumerate_eq_zip upt_rec
      split: prod.splits)

text \<open>
  Claim C6, as amended. Cancelling calls no service operation (nothing is
  persisted), empties the staged list and hides the confirmation dialog. It does
  not touch the model form: the form is as visible afterwards as it was before.
\<close>

theorem cancel_bulk_creation:
  "service (handleCancelBulkCreation w) = service w \<and>
   calls (handleCancelBulkCreation w) = calls w \<and>
   settings (handleCancelBulkCreation w) = settings w \<and>
   modelsToCreate (handleCancelBulkCreation w) = [] \<and>
   \<not> showBulkConfirm (handleCancelBulkCreation w) \<and>
   showLocalModelForm (handleCancelBulkCreation w) = showLocalModelForm w \<and>
   editingModel (handleCancelBulkCreation w) = editingModel w"
  by (simp add: handleCancelBulkCreation_def)

text \<open>
  The claim as written fails: staging does not close the form, and neither does
  cancelling. Open the form, submit \<open>A, B\<close>, cancel: the form is still shown.
\<close>

theorem cancel_leaves_form_open:
  "showLocalModelForm
     (handleCancelBulkCreation
        (handleSaveLocalModel sampleService sampleDraws (sampleModel (js ''A, B''))
           (addModelClick sampleWorld)))"
  by (simp add: handleCancelBulkCreation_def handleSaveLocalModel_def addModelClick_def
      sampleWorld_def mount_def parseCommaSeparatedModelNames_def sampleModel_def
      splitNames_A_B)

subsection \<open>The timeout field\<close>

lemma parseInt_30: "parseInt (js ''30'') = Num 30"
  by (simp add: parseInt_def js_def isWhiteSpace_def digitVal_def digitsValue_def mkNum_def
      maxExact_def Let_def)

text \<open>
  Claim C8. Entering \<open>30\<close> in the timeout field calls \<open>updateSettings\<close> once,
  with the patch that holds \<open>localModelTimeout\<close> 30000 and nothing else; the
  service moves to the state that call leaves it in and the component takes the
  snapshot it returns. With the stand-in service the store and the snapshot then
  hold 30000, and the field shows 30 again. A stored value of 45000 is shown as
  45. In general the patch holds 1000 times the integer that \<open>parseInt\<close>
  reads, as long as the product is an exact double; a stored \<open>k * 1000\<close> is
  shown as \<open>k\<close>, and a stored integer that 1000 does not divide is shown as
  its quotient by 1000, which is no integer (45500 is not shown as 45).
\<close>

theorem timeout_field_conversion:
  "calls (localModelTimeout_onChange svc (js ''30'') w) =
     calls w @ [UpdateSettings (noUpdates\<lparr>p_localModelTimeout := Some (Num 30000)\<rparr>)] \<and>
   settings (localModelTimeout_onChange svc (js ''30'') w) =
     fst (updateSettings svc (noUpdates\<lparr>p_localModelTimeout := Some (Num 30000)\<rparr>) (service w)) \<and>
   localModelTimeout_value (w\<lparr>settings := (settings w)\<lparr>localModelTimeout := Num 45000\<rparr>\<rparr>) =
     Num 45 \<and>
   (\<forall>v n. parseInt v = Num n \<and> \<bar>n * 1000\<bar> \<le> maxExact \<longrightarrow>
      calls (localModelTimeout_onChange svc v w) =
        calls w @ [UpdateSettings (noUpdates\<lparr>p_localModelTimeout := Some (Num (n * 1000))\<rparr>)]) \<and>
   (\<forall>k. localModelTimeout_value
          (w\<lparr>settings := (settings w)\<lparr>localModelTimeout := Num (k * 1000)\<rparr>\<rparr>) = Num k) \<and>
   service (localModelTimeout_onChange svc (js ''30'') w) =
     snd (updateSettings svc (noUpdates\<lparr>p_localModelTimeout := Some (Num 30000)\<rparr>) (service w)) \<and>
   (\<forall>v n. parseInt v = Num n \<and> \<bar>n * 1000\<bar> \<le> maxExact \<longrightarrow>
      service (localModelTimeout_onChange svc v w) =
        snd (updateSettings svc (noUpdates\<lparr>p_localModelTimeout := Some (Num (n * 1000))\<rparr>)
          (service w)) \<and>
      settings (localModelTimeout_onChange svc v w) =
        fst (updateSettings svc (noUpdates\<lparr>p_localModelTimeout := Some (Num (n * 1000))\<rparr>)
          (service w))) \<and>
   localModelTimeout (service (localModelTimeout_onChange (memoryService d) (js ''30'') w')) =
     Num 30000 \<and>
   localModelTimeout (settings (localModelTimeout_onChange (memoryService d) (js ''30'') w')) =
     Num 30000 \<and>
   localModelTimeout_value (localModelTimeout_onChange (memoryService d) (js ''30'') w') =
     Num 30 \<and>
   localModelTimeout_value (w\<lparr>settings := (settings w)\<lparr>localModelTimeout := Num 45500\<rparr>\<rparr>) =
     Other \<and>
   (\<forall>n. \<not> 1000 dvd n \<longrightarrow>
      localModelTimeout_value (w\<lparr>settings := (settings w)\<lparr>localModelTimeout := Num n\<rparr>\<rparr>) =
        Other)"
proof -
  have store: "localModelTimeout (service (localModelTimeout_onChange (memoryService d) (js ''30'') w')) =
     Num 30000"
    by (simp add: localModelTimeout_onChange_def handleSaveSettings_def call_defs parseInt_30
        memoryService_def applyUpdates_def noUpdates_def mkNum_def maxExact_def)
  have snap: "localModelTimeout (settings (localModelTimeout_onChange (memoryService d) (js ''30'') w')) =
     Num 30000"
    by (simp add: localModelTimeout_onChange_def handleSaveSettings_def call_defs parseInt_30
        memoryService_def applyUpdates_def noUpdates_def mkNum_def maxExact_def)
  have shown: "localModelTimeout_value (localModelTimeout_onChange (memoryService d) (js ''30'') w') =
     Num 30"
    using snap by (simp add: localModelTimeout_value_def)
  have frac: "localModelTimeout_value
      (w\<lparr>settings := (settings w)\<lparr>localModelTimeout := Num 45500\<rparr>\<rparr>) = Other"
    by (simp add: localModelTimeout_value_def)
  have rest: "calls (localModelTimeout_onChange svc (js ''30'') w) =
     calls w @ [UpdateSettings (noUpdates\<lparr>p_localModelTimeout := Some (Num 30000)\<rparr>)] \<and>
   settings (localModelTimeout_onChange svc (js ''30'') w) =
     fst (updateSettings svc (noUpdates\<lparr>p_localModelTimeout := Some (Num 30000)\<rparr>) (service w)) \<and>
   localModelTimeout_value (w\<lparr>settings := (settings w)\<lparr>localModelTimeout := Num 45000\<rparr>\<rparr>) =
     Num 45 \<and>
   (\<forall>v n. parseInt v = Num n \<and> \<bar>n * 1000\<bar> \<le> maxExact \<longrightarrow>
      calls (localModelTimeout_onChange svc v w) =
        calls w @ [UpdateSettings (noUpdates\<lparr>p_localModelTimeout := Some (Num (n * 1000))\<rparr>)]) \<and>
   (\<forall>k. localModelTimeout_value
          (w\<lparr>settings := (settings w)\<lparr>localModelTimeout := Num (k * 1000)\<rparr>\<rparr>) = Num k) \<and>
   service (localModelTimeout_onChange svc (js ''30'') w) =
     snd (updateSettings svc (noUpdates\<lparr>p_localModelTimeout := Some (Num 30000)\<rparr>) (service w)) \<and>
   (\<forall>v n. parseInt v = Num n \<and> \<bar>n * 1000\<bar> \<le> maxExact \<longrightarrow>
      service (localModelTimeout_onChange svc v w) =
        snd (updateSettings svc (noUpdates\<lparr>p_localModelTimeout := Some (Num (n * 1000))\<rparr>)
          (service w)) \<and>
      settings (localModelTimeout_onChange svc v w) =
        fst (updateSettings svc (noUpdates\<lparr>p_localModelTimeout := Some (Num (n * 1000))\<rparr>)
          (service w)))"
    by (simp add: localModelTimeout_onChange_def handleSaveSettings_def call_defs parseInt_30
        localModelTimeout_value_def mkNum_def maxExact_def split: prod.splits)
  have nodiv: "\<forall>n. \<not> 1000 dvd n \<longrightarrow>
      localModelTimeout_value (w\<lparr>settings := (settings w)\<lparr>localModelTimeout := Num n\<rparr>\<rparr>) =
        Other"
    by (simp add: localModelTimeout_value_def)
  show ?thesis using rest store snap shown frac nodiv by blast
qed

text \<open>
  The general laws at the entry \<open>300\<close> and at the stored value 45500, from the
  mounted component: the patch, the store and the snapshot hold 300000.
\<close>

theorem timeout_field_conversion_witness:
  "parseInt (js ''300'') = Num 300 \<and> \<bar>300 * 1000\<bar> \<le> maxExact \<and>
   calls (localModelTimeout_onChange sampleService (js ''300'') sampleWorld) =
     [GetSettings, UpdateSettings (noUpdates\<lparr>p_localModelTimeout := Some (Num 300000)\<rparr>)] \<and>
   localModelTimeout (service (localModelTimeout_onChange sampleService (js ''300'') sampleWorld)) =
     Num 300000 \<and>
   localModelTimeout (settings (localModelTimeout_onChange sampleService (js ''300'') sampleWorld)) =
     Num 300000 \<and>
   \<not> (1000::int) dvd 45500 \<and>
   localModelTimeout_value
     (sampleWorld\<lparr>settings := (settings sampleWorld)\<lparr>localModelTimeout := Num 45500\<rparr>\<rparr>) = Other"
proof -
  have p: "parseInt (js ''300'') = Num 300"
    by (simp add: parseInt_def js_def isWhiteSpace_def digitVal_def digitsValue_def mkNum_def
        maxExact_def Let_def)
  have b: "\<bar>300 * 1000\<bar> \<le> maxExact" by (simp add: maxExact_def)
  have c: "calls sampleWorld = [GetSettings]" by (simp add: sampleWorld_def mount_def)
  have nd: "\<not> (1000::int) dvd 45500" by simp
  note t = timeout_field_conversion [of sampleService sampleWorld]
  have "\<forall>v n. parseInt v = Num n \<and> \<bar>n * 1000\<bar> \<le> maxExact \<longrightarrow>
      calls (localModelTimeout_onChange sampleService v sampleWorld) =
        calls sampleWorld @
          [UpdateSettings (noUpdates\<lparr>p_localModelTimeout := Some (Num (n * 1000))\<rparr>)]"
    using t by blast
  then have "calls (localModelTimeout_onChange sampleService (js ''300'') sampleWorld) =
      calls sampleWorld @
        [UpdateSettings (noUpdates\<lparr>p_localModelTimeout := Some (Num (300 * 1000))\<rparr>)]"
    using p b by blast
  then have k: "calls (localModelTimeout_onChange sampleService (js ''300'') sampleWorld) =
     [GetSettings, UpdateSettings (noUpdates\<lparr>p_localModelTimeout := Some (Num 300000)\<rparr>)]"
    using c by simp
  have "\<forall>v n. parseInt v = Num n \<and> \<bar>n * 1000\<bar> \<le> maxExact \<longrightarrow>
      service (localModelTimeout_onChange sampleService v sampleWorld) =
        snd (updateSettings sampleService
          (noUpdates\<lparr>p_localModelTimeout := Some (Num (n * 1000))\<rparr>) (service sampleWorld)) \<and>
      settings (localModelTimeout_onChange sampleService v sampleWorld) =
        fst (updateSettings sampleService
          (noUpdates\<lparr>p_localModelTimeout := Some (Num (n * 1000))\<rparr>) (service sampleWorld))"
    using t by blast
  then have "service (localModelTimeout_onChange sampleService (js ''300'') sampleWorld) =
        snd (updateSettings sampleService
          (noUpdates\<lparr>p_localModelTimeout := Some (Num (300 * 1000))\<rparr>) (service sampleWorld)) \<and>
      settings (localModelTimeout_onChange sampleService (js ''300'') sampleWorld) =
        fst (updateSettings sampleService
          (noUpdates\<lparr>p_localModelTimeout := Some (Num (300 * 1000))\<rparr>) (service sampleWorld))"
    using p b by blast
  then have s: "localModelTimeout
        (service (localModelTimeout_onChange sampleService (js ''300'') sampleWorld)) = Num 300000"
    "localModelTimeout
        (settings (localModelTimeout_onChange sampleService (js ''300'') sampleWorld)) = Num 300000"
    by (simp_all add: sampleService_def memoryService_def applyUpdates_def noUpdates_def)
  have "\<forall>n. \<not> 1000 dvd n \<longrightarrow>
      localModelTimeout_value
        (sampleWorld\<lparr>settings := (settings sampleWorld)\<lparr>localModelTimeout := Num n\<rparr>\<rparr>) = Other"
    using t by blast
  then have f: "localModelTimeout_value
     (sampleWorld\<lparr>settings := (settings sampleWorld)\<lparr>localModelTimeout := Num 45500\<rparr>\<rparr>) = Other"
    using nd by blast
  show ?thesis using p b k s nd f by blast
qed

subsection \<open>Import\<close>

text \<open>
  Claim C9. When the service's import throws, the handler leaves the snapshot it
  holds as it was and sets the error message to \<open>Invalid settings file format\<close>;
  when the import returns, the handler takes the service's snapshot and empties
  the error message.
\<close>

theorem import_settings_outcomes:
  "(\<forall>e s'. importSettings svc content (service w) = Inl (e, s') \<longrightarrow>
      settings (handleImportSettings svc (Some content) w) = settings w \<and>
      importError (handleImportSettings svc (Some content) w) =
        js ''Invalid settings file format'') \<and>
   (\<forall>s'. importSettings svc content (service w) = Inr s' \<longrightarrow>
      settings (handleImportSettings svc (Some content) w) = getSettings svc s' \<and>
      importError (handleImportSettings svc (Some content) w) = [])"
  by (simp add: handleImportSettings_def call_defs)

text \<open>Both outcomes, starting with an error message on display.\<close>

theorem import_settings_outcomes_witness:
  "importSettings sampleService (js ''oops'') (service (sampleWorld\<lparr>importError := js ''x''\<rparr>)) =
     Inl (SyntaxError, sampleSettings) \<and>
   settings (handleImportSettings sampleService (Some (js ''oops''))
      (sampleWorld\<lparr>importError := js ''x''\<rparr>)) = sampleSettings \<and>
   importError (handleImportSettings sampleService (Some (js ''oops''))
      (sampleWorld\<lparr>importError := js ''x''\<rparr>)) = js ''Invalid settings file format'' \<and>
   importSettings sampleService (js ''{}'') (service (sampleWorld\<lparr>importError := js ''x''\<rparr>)) =
     Inr sampleSettings \<and>
   settings (handleImportSettings sampleService (Some (js ''{}''))
      (sampleWorld\<lparr>importError := js ''x''\<rparr>)) = sampleSettings \<and>
   importError (handleImportSettings sampleService (Some (js ''{}''))
      (sampleWorld\<lparr>importError := js ''x''\<rparr>)) = []"
proof -
  let ?w = "sampleWorld\<lparr>importError := js ''x''\<rparr>"
  have f: "importSettings sampleService (js ''oops'') (service ?w) =
      Inl (SyntaxError, sampleSettings)"
    by (simp add: sampleService_def memoryService_def sampleWorld_def mount_def js_def)
  have g: "importSettings sampleService (js ''{}'') (service ?w) = Inr sampleSettings"
    by (simp add: sampleService_def memoryService_def sampleWorld_def mount_def)
  have s: "settings ?w = sampleSettings"
    "getSettings sampleService sampleSettings = sampleSettings"
    by (simp_all add: sampleService_def memoryService_def sampleWorld_def mount_def)
  show ?thesis
    using import_settings_outcomes [of sampleService "js ''oops''" ?w]
      import_settings_outcomes [of sampleService "js ''{}''" ?w] f g s
    by simp
qed

end
